theory Spec2Isabelle
  imports Main "HOL-Library.AList"
begin

section \<open>Values of the host language\<close>

text \<open>
  The three entry points of \<^verbatim>\<open>JSONScalar.ts\<close> and the guard \<^verbatim>\<open>isJSONValue\<close> of
  \<^verbatim>\<open>types.ts\<close> take a value of type \<^verbatim>\<open>unknown\<close>.  The datatype below has one
  constructor for every kind of value the code tells apart: the primitives (with
  \<^verbatim>\<open>bigint\<close>, the one primitive that reaches the final \<^verbatim>\<open>return false\<close>), functions,
  \<^verbatim>\<open>Date\<close>, \<^verbatim>\<open>RegExp\<close> and \<^verbatim>\<open>Error\<close> instances, arrays and ordinary objects.

  Numbers are a type parameter \<open>'n\<close>: the code never computes with a number, it
  only receives one or obtains one from the host's \<^verbatim>\<open>parseInt\<close> and \<^verbatim>\<open>parseFloat\<close>.

  Scope of the model.  Values are finite trees (no cyclic object graph).  An array is the
  dense list of its elements (no holes, no extra own properties).  An object is its
  prototype and the association list of its own enumerable string-keyed data properties, in
  insertion order, on which no result of the code depends (no accessor property, no proxy,
  no frozen object).  A \<^verbatim>\<open>Date\<close>, \<^verbatim>\<open>RegExp\<close> or \<^verbatim>\<open>Error\<close> object is the value built by
  that constructor or a subclass of it, and has no property of its own.  The methods the
  code calls are the built-in ones: no class replaces \<^verbatim>\<open>every\<close>, \<^verbatim>\<open>map\<close> or
  \<^verbatim>\<open>join\<close>, and no object with a date on its prototype chain holds a property named
  \<^verbatim>\<open>toISOString\<close>.
\<close>

text \<open>Functions that the code or a prototype chain can name: the built-in constructors,
  user-defined classes and every other function.\<close>

datatype func = ObjectC | ArrayC | DateC | RegExpC | ErrorC | FunctionC
  | ClassC string | OtherFunction string

datatype 'n jsval =
    Null
  | Undefined
  | Str string
  | Num 'n
  | BigInt int
  | Bool bool
  | Symbol string
  | Function func
  | DateObj "int option"
  | RegExpObj string
  | ErrorObj string
  | Arr "string option" "'n jsval list"
  | Obj "'n proto" "(string \<times> 'n jsval) list"
and 'n proto =
    ObjectPrototype
  | NullPrototype
  | ClassPrototype string
  | InstancePrototype "'n jsval"

text \<open>
  \<^item> \<open>DateObj t\<close>: a date with time value \<open>t\<close> in milliseconds since the epoch
    (the host keeps it within 8640000000000000 of zero); \<open>None\<close> is the invalid date
    (time value \<^verbatim>\<open>NaN\<close>), as \<^verbatim>\<open>new Date("x")\<close> builds.
  \<^item> \<open>RegExpObj r\<close> and \<open>ErrorObj m\<close>: a regular expression with source \<open>r\<close>, an error
    with message \<open>m\<close>; the code reads neither.
  \<^item> \<open>Symbol d\<close>: a symbol with description \<open>d\<close>.
  \<^item> \<open>Arr c xs\<close>: an array with elements \<open>xs\<close>; \<open>c = None\<close> for a plain array,
    \<open>Some name\<close> for an instance of the class \<open>name\<close> that extends \<^verbatim>\<open>Array\<close>.
  \<^item> \<open>Obj p ps\<close>: an ordinary object with prototype \<open>p\<close> and own properties \<open>ps\<close>.
    \<open>ObjectPrototype\<close> is \<^verbatim>\<open>Object.prototype\<close> (an object literal),
    \<open>NullPrototype\<close> is no prototype (\<^verbatim>\<open>Object.create(null)\<close>),
    \<open>ClassPrototype c\<close> is the prototype of the class \<open>c\<close> (\<^verbatim>\<open>new c()\<close>, a class that
    extends nothing), and \<open>InstancePrototype v\<close> is the object \<open>v\<close> itself, which is what
    an assignment to \<^verbatim>\<open>__proto__\<close> installs.
\<close>

datatype error = TypeError string | RangeError string

text \<open>
  What the model leaves to the host: the reading of a number, \<^verbatim>\<open>parseInt(text, radix)\<close>
  and \<^verbatim>\<open>parseFloat(text)\<close>; the printing of a number and of a \<^verbatim>\<open>bigint\<close>; and the
  conversion to a string of an object that is not an array, which runs the methods
  \<^verbatim>\<open>toString\<close> and \<^verbatim>\<open>valueOf\<close> of the object and can throw (it does on an object
  without a prototype, which has neither).
\<close>

record 'n host =
  parseInt :: "string \<Rightarrow> nat \<Rightarrow> 'n"
  parseFloat :: "string \<Rightarrow> 'n"
  numberToString :: "'n \<Rightarrow> string"
  bigintToString :: "int \<Rightarrow> string"
  objectToString :: "'n jsval \<Rightarrow> error + string"

subsection \<open>Operators of the host language\<close>

fun typeof :: "'n jsval \<Rightarrow> string" where
  "typeof Undefined = ''undefined''"
| "typeof (Str _) = ''string''"
| "typeof (Num _) = ''number''"
| "typeof (BigInt _) = ''bigint''"
| "typeof (Bool _) = ''boolean''"
| "typeof (Symbol _) = ''symbol''"
| "typeof (Function _) = ''function''"
| "typeof _ = ''object''"

text \<open>
  \<^verbatim>\<open>value instanceof C\<close> for the three constructors the code tests: whether the prototype
  of \<^verbatim>\<open>C\<close> is on the prototype chain of the value.  It is for an object built by
  \<^verbatim>\<open>C\<close>, and for an object that has such an object on its chain.
\<close>

fun instanceof :: "'n jsval \<Rightarrow> func \<Rightarrow> bool"
  and protoInstanceof :: "'n proto \<Rightarrow> func \<Rightarrow> bool" where
  "instanceof (DateObj t) C = (C = DateC)"
| "instanceof (RegExpObj r) C = (C = RegExpC)"
| "instanceof (ErrorObj m) C = (C = ErrorC)"
| "instanceof (Obj p ps) C = protoInstanceof p C"
| "instanceof (Arr c xs) C = False"
| "instanceof (Function f) C = False"
| "instanceof Null C = False"
| "instanceof Undefined C = False"
| "instanceof (Str s) C = False"
| "instanceof (Num n) C = False"
| "instanceof (BigInt i) C = False"
| "instanceof (Bool b) C = False"
| "instanceof (Symbol d) C = False"
| "protoInstanceof (InstancePrototype v) C = instanceof v C"
| "protoInstanceof ObjectPrototype C = False"
| "protoInstanceof NullPrototype C = False"
| "protoInstanceof (ClassPrototype c) C = False"

fun isArray :: "'n jsval \<Rightarrow> bool" where
  "isArray (Arr _ _) = True"
| "isArray _ = False"

text \<open>The elements \<^verbatim>\<open>every\<close> and \<^verbatim>\<open>map\<close> visit, and \<^verbatim>\<open>Object.values\<close>.\<close>

fun elements :: "'n jsval \<Rightarrow> 'n jsval list" where
  "elements (Arr _ xs) = xs"
| "elements _ = []"

fun Object_values :: "'n jsval \<Rightarrow> 'n jsval list" where
  "Object_values (Obj _ ps) = map snd ps"
| "Object_values (Arr _ xs) = xs"
| "Object_values _ = []"

text \<open>
  \<^verbatim>\<open>value.constructor\<close>: the own property of that name when the object has one, the
  property found along the prototype chain otherwise (\<^verbatim>\<open>Object.prototype.constructor\<close>
  is \<^verbatim>\<open>Object\<close>, a class prototype names its class), and \<^verbatim>\<open>undefined\<close> when the chain
  ends without one.  A primitive is never a prototype.
\<close>

fun getConstructor :: "'n jsval \<Rightarrow> 'n jsval"
  and protoConstructor :: "'n proto \<Rightarrow> 'n jsval" where
  "getConstructor (Obj p ps) =
     (case map_of ps ''constructor'' of Some v \<Rightarrow> v | None \<Rightarrow> protoConstructor p)"
| "getConstructor (Arr None xs) = Function ArrayC"
| "getConstructor (Arr (Some c) xs) = Function (ClassC c)"
| "getConstructor (DateObj t) = Function DateC"
| "getConstructor (RegExpObj s) = Function RegExpC"
| "getConstructor (ErrorObj s) = Function ErrorC"
| "getConstructor (Function f) = Function FunctionC"
| "getConstructor Null = Undefined"
| "getConstructor Undefined = Undefined"
| "getConstructor (Str s) = Undefined"
| "getConstructor (Num n) = Undefined"
| "getConstructor (BigInt i) = Undefined"
| "getConstructor (Bool b) = Undefined"
| "getConstructor (Symbol s) = Undefined"
| "protoConstructor ObjectPrototype = Function ObjectC"
| "protoConstructor NullPrototype = Undefined"
| "protoConstructor (ClassPrototype c) = Function (ClassC c)"
| "protoConstructor (InstancePrototype v) = getConstructor v"

subsection \<open>The conversion \<^verbatim>\<open>String(value)\<close>\<close>

text \<open>
  \<open>ToString\<close> is the conversion the language applies wherever it needs a string.  It
  throws on a symbol.  It converts an array with \<^verbatim>\<open>Array.prototype.join\<close>: the elements
  converted one after the other, \<^verbatim>\<open>undefined\<close> and \<^verbatim>\<open>null\<close> to the empty string, with
  a comma between them; an error thrown for an element ends the conversion.  The function
  \<^verbatim>\<open>String\<close> is \<open>ToString\<close> but for a symbol, which it prints.
\<close>

fun join :: "string \<Rightarrow> string list \<Rightarrow> string" where
  "join sep [] = []"
| "join sep [s] = s"
| "join sep (s # t # ts) = s @ sep @ join sep (t # ts)"

function ToString :: "'n host \<Rightarrow> 'n jsval \<Rightarrow> error + string"
  and elementsToString :: "'n host \<Rightarrow> 'n jsval list \<Rightarrow> error + string list" where
  "ToString h Undefined = Inr ''undefined''"
| "ToString h Null = Inr ''null''"
| "ToString h (Bool b) = Inr (if b then ''true'' else ''false'')"
| "ToString h (Num n) = Inr (numberToString h n)"
| "ToString h (BigInt i) = Inr (bigintToString h i)"
| "ToString h (Str s) = Inr s"
| "ToString h (Symbol d) = Inl (TypeError ''Cannot convert a Symbol value to a string'')"
| "ToString h (Arr c xs) =
     (case elementsToString h xs of Inl e \<Rightarrow> Inl e | Inr ss \<Rightarrow> Inr (join '','' ss))"
| "ToString h (Function f) = objectToString h (Function f)"
| "ToString h (DateObj t) = objectToString h (DateObj t)"
| "ToString h (RegExpObj r) = objectToString h (RegExpObj r)"
| "ToString h (ErrorObj m) = objectToString h (ErrorObj m)"
| "ToString h (Obj p ps) = objectToString h (Obj p ps)"
| "elementsToString h [] = Inr []"
| "elementsToString h (x # xs) =
     (case (if x = Undefined \<or> x = Null then Inr [] else ToString h x) of
        Inl e \<Rightarrow> Inl e
      | Inr s \<Rightarrow>
          (case elementsToString h xs of Inl e \<Rightarrow> Inl e | Inr ss \<Rightarrow> Inr (s # ss)))"
  by pat_completeness auto
termination
  by (relation "measure (\<lambda>x. case x of
        Inl (h, v) \<Rightarrow> size v
      | Inr (h, vs) \<Rightarrow> size_list size vs)")
     auto

definition String :: "'n host \<Rightarrow> 'n jsval \<Rightarrow> error + string" where
  "String h value =
    (case value of
       Symbol d \<Rightarrow> Inr (''Symbol('' @ d @ '')'')
     | _ \<Rightarrow> ToString h value)"

section \<open>The structural validator\<close>

text \<open>\<^verbatim>\<open>isJSONValue\<close> of \<^verbatim>\<open>types.ts\<close>, test by test in the order of the source.\<close>

lemma elements_smaller: "x \<in> set (elements v) \<Longrightarrow> size x < size v"
  by (cases v) (auto simp: less_Suc_eq_le dest: size_list_estimation')

lemma Object_values_smaller: "x \<in> set (Object_values v) \<Longrightarrow> size x < size v"
proof (cases v)
  case (Obj p ps)
  assume "x \<in> set (Object_values v)"
  with Obj obtain k where "(k, x) \<in> set ps" by auto
  then have "size_prod (\<lambda>_. 0) size (k, x) \<le> size_list (size_prod (\<lambda>_. 0) size) ps"
    by (rule size_list_estimation') simp
  with Obj show ?thesis by simp
qed (auto simp: less_Suc_eq_le dest: size_list_estimation')

function isJSONValue :: "'n jsval \<Rightarrow> bool" where
  "isJSONValue value =
    (if value = Null then True
     else if typeof value = ''string'' \<or> typeof value = ''number'' \<or>
             typeof value = ''boolean'' then True
     else if typeof value = ''undefined'' \<or> typeof value = ''function'' \<or>
             typeof value = ''symbol'' then False
     else if instanceof value DateC \<or> instanceof value RegExpC \<or>
             instanceof value ErrorC then False
     else if isArray value then list_all isJSONValue (elements value)
     else if typeof value = ''object'' \<and> value \<noteq> Null then
       (if getConstructor value \<noteq> Function ObjectC \<and> getConstructor value \<noteq> Undefined
        then False
        else list_all isJSONValue (Object_values value))
     else False)"
  by pat_completeness auto
termination
  by (relation "measure size") (auto simp: elements_smaller Object_values_smaller)

subsection \<open>The validator on the call stack of the host\<close>



text \<open>The number of calls, one inside the other, that the validator makes at most for a
  value: one for the value, and those for the deepest of its elements or property values.\<close>

fun depth :: "'n jsval \<Rightarrow> nat" where
  "depth (Arr c xs) = Suc (foldr (\<lambda>x. max (depth x)) xs 0)"
| "depth (Obj p ps) = Suc (foldr (\<lambda>kv. max (depth (snd kv))) ps 0)"
| "depth _ = Suc 0"

section \<open>The value converters\<close>

subsection \<open>The host's \<^verbatim>\<open>Date.prototype.toISOString\<close>\<close>

text \<open>
  The method throws a \<^verbatim>\<open>RangeError\<close> on the invalid date.  On a valid one it prints the
  UTC fields of the time value as \<^verbatim>\<open>YYYY-MM-DDTHH:mm:ss.sssZ\<close>, the year with a sign
  and six digits when it is outside 0 to 9999.
\<close>

fun digits :: "nat \<Rightarrow> int \<Rightarrow> string" where
  "digits 0 n = []"
| "digits (Suc w) n = digits w (n div 10) @ [''0123456789'' ! nat (n mod 10)]"

text \<open>Year, month and day of a day number counted from 1970-01-01 (proleptic Gregorian
  calendar; the year begins in March inside the computation).\<close>

definition civil :: "int \<Rightarrow> int \<times> int \<times> int" where
  "civil days =
    (let z = days + 719468;
         era = z div 146097;
         doe = z - era * 146097;
         yoe = (doe - doe div 1460 + doe div 36524 - doe div 146096) div 365;
         doy = doe - (365 * yoe + yoe div 4 - yoe div 100);
         mp = (5 * doy + 2) div 153;
         d = doy - (153 * mp + 2) div 5 + 1;
         m = (if mp < 10 then mp + 3 else mp - 9);
         y = yoe + era * 400 + (if m \<le> 2 then 1 else 0)
     in (y, m, d))"

definition yearString :: "int \<Rightarrow> string" where
  "yearString y =
    (if 0 \<le> y \<and> y \<le> 9999 then digits 4 y
     else (if y < 0 then ''-'' else ''+'') @ digits 6 \<bar>y\<bar>)"

definition isoString :: "int \<Rightarrow> string" where
  "isoString t =
    (case civil (t div 86400000) of (y, m, d) \<Rightarrow>
       yearString y @ ''-'' @ digits 2 m @ ''-'' @ digits 2 d @ ''T'' @
       digits 2 (t div 3600000 mod 24) @ '':'' @
       digits 2 (t div 60000 mod 60) @ '':'' @
       digits 2 (t div 1000 mod 60) @ ''.'' @
       digits 3 (t mod 1000) @ ''Z'')"

text \<open>Called on an object that is not a date, which an instance of \<^verbatim>\<open>Date\<close> can be, the
  method throws a \<^verbatim>\<open>TypeError\<close>.\<close>

fun toISOString :: "'n jsval \<Rightarrow> error + 'n jsval" where
  "toISOString (DateObj None) = Inl (RangeError ''Invalid time value'')"
| "toISOString (DateObj (Some t)) = Inr (Str (isoString t))"
| "toISOString _ = Inl (TypeError ''this is not a Date object.'')"

subsection \<open>\<^verbatim>\<open>serialize\<close> and \<^verbatim>\<open>parseValue\<close>\<close>

text \<open>
  The message of the error is put together before the error is thrown, so that an error of
  \<^verbatim>\<open>String(value)\<close> is thrown in its place.
\<close>

definition serialize :: "'n host \<Rightarrow> 'n jsval \<Rightarrow> error + 'n jsval" where
  "serialize h value =
    (if instanceof value DateC then toISOString value
     else if \<not> isJSONValue value then
       (case String h value of
          Inl e \<Rightarrow> Inl e
        | Inr s \<Rightarrow>
            Inl (TypeError (''JSON cannot represent value: '' @ s @ ''.'' @
                            ''Only plain objects, arrays, and primitives are supported.'')))
     else Inr value)"

definition parseValue :: "'n host \<Rightarrow> 'n jsval \<Rightarrow> error + 'n jsval" where
  "parseValue h value =
    (if instanceof value DateC then toISOString value
     else if \<not> isJSONValue value then
       (case String h value of
          Inl e \<Rightarrow> Inl e
        | Inr s \<Rightarrow>
            Inl (TypeError (''JSON cannot represent value: '' @ s @ ''.'' @
                            ''Only plain objects, arrays, and primitives are supported.'')))
     else Inr value)"

subsection \<open>The converters on references\<close>

text \<open>
  The host passes a primitive by value and an object by reference.  To tell an object from
  a copy of it and to see a write, the store of the objects is made explicit: a cell of the
  store holds an object with all that it contains, an argument is a primitive or the address
  of a cell, and a function takes the store and returns it with its result.  The converters
  are the same code as above, read on the object the argument refers to.  They allocate
  nothing and assign to nothing, so every branch returns the store it was given, and the
  last branch returns the argument, an address for an object.
\<close>

type_synonym addr = nat

type_synonym 'n store = "addr \<Rightarrow> 'n jsval"

datatype 'n argument = Immediate "'n jsval" | Reference addr

fun deref :: "'n store \<Rightarrow> 'n argument \<Rightarrow> 'n jsval" where
  "deref \<sigma> (Immediate v) = v"
| "deref \<sigma> (Reference a) = \<sigma> a"

definition serializeRef ::
  "'n host \<Rightarrow> 'n store \<Rightarrow> 'n argument \<Rightarrow> 'n store \<times> (error + 'n argument)" where
  "serializeRef h \<sigma> value =
    (if instanceof (deref \<sigma> value) DateC then
       (\<sigma>, case toISOString (deref \<sigma> value) of
              Inl e \<Rightarrow> Inl e
            | Inr s \<Rightarrow> Inr (Immediate s))
     else if \<not> isJSONValue (deref \<sigma> value) then
       (\<sigma>, case String h (deref \<sigma> value) of
              Inl e \<Rightarrow> Inl e
            | Inr s \<Rightarrow>
                Inl (TypeError (''JSON cannot represent value: '' @ s @ ''.'' @
                                ''Only plain objects, arrays, and primitives are supported.'')))
     else (\<sigma>, Inr value))"

definition parseValueRef ::
  "'n host \<Rightarrow> 'n store \<Rightarrow> 'n argument \<Rightarrow> 'n store \<times> (error + 'n argument)" where
  "parseValueRef h \<sigma> value =
    (if instanceof (deref \<sigma> value) DateC then
       (\<sigma>, case toISOString (deref \<sigma> value) of
              Inl e \<Rightarrow> Inl e
            | Inr s \<Rightarrow> Inr (Immediate s))
     else if \<not> isJSONValue (deref \<sigma> value) then
       (\<sigma>, case String h (deref \<sigma> value) of
              Inl e \<Rightarrow> Inl e
            | Inr s \<Rightarrow>
                Inl (TypeError (''JSON cannot represent value: '' @ s @ ''.'' @
                                ''Only plain objects, arrays, and primitives are supported.'')))
     else (\<sigma>, Inr value))"

section \<open>The literal decoder\<close>

text \<open>
  \<^verbatim>\<open>ValueNode\<close> of the query language's library: a union of nine node types, told apart
  by the field \<^verbatim>\<open>kind\<close>.  An object literal is the list of its fields, each a name and a
  value node.
\<close>

datatype valueNode =
    Variable string
  | IntValue string
  | FloatValue string
  | StringValue string
  | BooleanValue bool
  | NullValue
  | EnumValue string
  | ListValue "valueNode list"
  | ObjectValue "(string \<times> valueNode) list"

text \<open>The strings of the library's enumeration \<^verbatim>\<open>Kind\<close>.\<close>

fun kind :: "valueNode \<Rightarrow> string" where
  "kind (Variable _) = ''Variable''"
| "kind (IntValue _) = ''IntValue''"
| "kind (FloatValue _) = ''FloatValue''"
| "kind (StringValue _) = ''StringValue''"
| "kind (BooleanValue _) = ''BooleanValue''"
| "kind NullValue = ''NullValue''"
| "kind (EnumValue _) = ''EnumValue''"
| "kind (ListValue _) = ''ListValue''"
| "kind (ObjectValue _) = ''ObjectValue''"

subsection \<open>The assignment \<^verbatim>\<open>obj[key] = v\<close>\<close>

text \<open>
  The object under construction is written as the pair of its prototype and its own
  properties.  The assignment looks the key up along the prototype chain.  Every
  property it can find there is a writable data property, so the assignment sets the own
  property of that name, in place when the object has it already and after the others when
  not; with one exception, the accessor \<^verbatim>\<open>__proto__\<close> of \<^verbatim>\<open>Object.prototype\<close>.  When
  the lookup ends at that accessor, its setter runs instead: it replaces the prototype of
  the object when the value is an object or \<^verbatim>\<open>null\<close>, does nothing for any other
  value, and in neither case creates a property.
\<close>

fun isObject :: "'n jsval \<Rightarrow> bool" where
  "isObject (Function _) = True"
| "isObject (DateObj _) = True"
| "isObject (RegExpObj _) = True"
| "isObject (ErrorObj _) = True"
| "isObject (Arr _ _) = True"
| "isObject (Obj _ _) = True"
| "isObject _ = False"

text \<open>Whether the lookup of \<^verbatim>\<open>__proto__\<close> from this prototype upwards ends at the
  accessor of \<^verbatim>\<open>Object.prototype\<close>.\<close>

fun inheritsProtoSetter :: "'n proto \<Rightarrow> bool" where
  "inheritsProtoSetter ObjectPrototype = True"
| "inheritsProtoSetter NullPrototype = False"
| "inheritsProtoSetter (ClassPrototype _) = True"
| "inheritsProtoSetter (InstancePrototype (Obj p ps)) =
     (if map_of ps ''__proto__'' = None then inheritsProtoSetter p else False)"
| "inheritsProtoSetter (InstancePrototype _) = True"

definition setProperty ::
  "'n proto \<times> (string \<times> 'n jsval) list \<Rightarrow> string \<Rightarrow> 'n jsval
    \<Rightarrow> 'n proto \<times> (string \<times> 'n jsval) list" where
  "setProperty obj key v =
    (case obj of (p, ps) \<Rightarrow>
       if key = ''__proto__'' \<and> map_of ps key = None \<and> inheritsProtoSetter p then
         (if v = Null then (NullPrototype, ps)
          else if isObject v then (InstancePrototype v, ps)
          else (p, ps))
       else (p, AList.update key v ps))"

subsection \<open>\<^verbatim>\<open>parseLiteral\<close>\<close>

text \<open>
  \<open>mapParseLiteral\<close> is \<^verbatim>\<open>ast.values.map((val) => parseLiteral(val))\<close> and \<open>parseFields\<close>
  is the loop \<^verbatim>\<open>for (const field of ast.fields)\<close> over the object \<^verbatim>\<open>obj\<close>, which starts
  as \<^verbatim>\<open>{}\<close>.  An error thrown while decoding an element or a field ends the whole call.
\<close>

function parseLiteral :: "'n host \<Rightarrow> valueNode \<Rightarrow> error + 'n jsval"
  and mapParseLiteral :: "'n host \<Rightarrow> valueNode list \<Rightarrow> error + 'n jsval list"
  and parseFields ::
    "'n host \<Rightarrow> 'n proto \<times> (string \<times> 'n jsval) list \<Rightarrow> (string \<times> valueNode) list
      \<Rightarrow> error + 'n proto \<times> (string \<times> 'n jsval) list" where
  "parseLiteral h (StringValue s) = Inr (Str s)"
| "parseLiteral h (IntValue s) = Inr (Num (parseInt h s 10))"
| "parseLiteral h (FloatValue s) = Inr (Num (parseFloat h s))"
| "parseLiteral h (BooleanValue b) = Inr (Bool b)"
| "parseLiteral h NullValue = Inr Null"
| "parseLiteral h (ListValue vals) =
     (case mapParseLiteral h vals of Inl e \<Rightarrow> Inl e | Inr xs \<Rightarrow> Inr (Arr None xs))"
| "parseLiteral h (ObjectValue flds) =
     (case parseFields h (ObjectPrototype, []) flds of
        Inl e \<Rightarrow> Inl e
      | Inr (p, ps) \<Rightarrow> Inr (Obj p ps))"
| "parseLiteral h (Variable x) =
     Inl (TypeError (''JSON cannot represent value: '' @ kind (Variable x) @ ''.'' @
       ''Only StringValue, IntValue, FloatValue, BooleanValue, NullValue, ObjectValue, and ListValue are supported''))"
| "parseLiteral h (EnumValue x) =
     Inl (TypeError (''JSON cannot represent value: '' @ kind (EnumValue x) @ ''.'' @
       ''Only StringValue, IntValue, FloatValue, BooleanValue, NullValue, ObjectValue, and ListValue are supported''))"
| "mapParseLiteral h [] = Inr []"
| "mapParseLiteral h (val # vals) =
     (case parseLiteral h val of
        Inl e \<Rightarrow> Inl e
      | Inr x \<Rightarrow> (case mapParseLiteral h vals of Inl e \<Rightarrow> Inl e | Inr xs \<Rightarrow> Inr (x # xs)))"
| "parseFields h obj [] = Inr obj"
| "parseFields h obj (fld # flds) =
     (case parseLiteral h (snd fld) of
        Inl e \<Rightarrow> Inl e
      | Inr v \<Rightarrow> parseFields h (setProperty obj (fst fld) v) flds)"
  by pat_completeness auto
termination
  by (relation "measure (\<lambda>x. case x of
        Inl (h, ast) \<Rightarrow> size ast
      | Inr (Inl (h, vals)) \<Rightarrow> size_list size vals
      | Inr (Inr (h, obj, flds)) \<Rightarrow> size_list (size_prod (\<lambda>_. 0) size) flds)")
     auto

subsection \<open>The field names of a literal\<close>

text \<open>The names of all fields of all object literals in a node, nested ones included.\<close>

fun fieldNames :: "valueNode \<Rightarrow> string list" where
  "fieldNames (ListValue vals) = concat (map fieldNames vals)"
| "fieldNames (ObjectValue flds) = concat (map (\<lambda>fld. fst fld # fieldNames (snd fld)) flds)"
| "fieldNames _ = []"

section \<open>The domain of JSON values, as the specification words it\<close>

text \<open>
  The rules of the specification for membership in the domain, one equation for each
  rule, by the kind of the value: \<^verbatim>\<open>null\<close>; a string, a number or a boolean;
  \<^verbatim>\<open>undefined\<close>, a function or a symbol; a date, a regular expression or an error
  object; an array; an object; anything else.  An object is a plain mapping when the
  constructor of its class, the one it inherits from its prototype, is \<^verbatim>\<open>Object\<close>, or
  when it has no prototype to inherit one from; it is then in the domain exactly when all
  its values are.  What its own keys are called plays no part: they are keys of the
  mapping.  An object of any other class is not in the domain.
\<close>

fun jsonValueDomain :: "'n jsval \<Rightarrow> bool" where
  "jsonValueDomain Null = True"
| "jsonValueDomain (Str s) = True"
| "jsonValueDomain (Num n) = True"
| "jsonValueDomain (Bool b) = True"
| "jsonValueDomain Undefined = False"
| "jsonValueDomain (Function f) = False"
| "jsonValueDomain (Symbol s) = False"
| "jsonValueDomain (DateObj t) = False"
| "jsonValueDomain (RegExpObj r) = False"
| "jsonValueDomain (ErrorObj m) = False"
| "jsonValueDomain (Arr c xs) = list_all jsonValueDomain xs"
| "jsonValueDomain (Obj p ps) =
     (if protoInstanceof p DateC \<or> protoInstanceof p RegExpC \<or> protoInstanceof p ErrorC
      then False
      else if protoConstructor p = Function ObjectC \<or> protoConstructor p = Undefined
      then list_all jsonValueDomain (map snd ps)
      else False)"
| "jsonValueDomain (BigInt i) = False"

text \<open>Whether the value, or a value inside it, is an object with a key of its own named
  \<^verbatim>\<open>constructor\<close>.\<close>

fun ownConstructorKey :: "'n jsval \<Rightarrow> bool" where
  "ownConstructorKey (Arr c xs) = list_ex ownConstructorKey xs"
| "ownConstructorKey (Obj p ps) =
     (map_of ps ''constructor'' \<noteq> None \<or> list_ex ownConstructorKey (map snd ps))"
| "ownConstructorKey _ = False"

section \<open>The form of a timestamp\<close>

text \<open>
  A string has the form of a pattern when it has a digit wherever the pattern has one of
  the letters \<^verbatim>\<open>Y\<close>, \<^verbatim>\<open>M\<close>, \<^verbatim>\<open>D\<close>, \<^verbatim>\<open>H\<close>, \<^verbatim>\<open>m\<close> and \<^verbatim>\<open>s\<close>, and the character
  of the pattern everywhere else.  \<open>utcYear\<close> is the year of a time value.
\<close>

definition digitPlace :: "char \<Rightarrow> bool" where
  "digitPlace p = (p \<in> set ''YMDHms'')"

definition isDigit :: "char \<Rightarrow> bool" where
  "isDigit c = (c \<in> set ''0123456789'')"

fun matchesForm :: "string \<Rightarrow> string \<Rightarrow> bool" where
  "matchesForm [] [] = True"
| "matchesForm (p # ps) (c # cs) =
     ((if digitPlace p then isDigit c else c = p) \<and> matchesForm ps cs)"
| "matchesForm _ _ = False"

definition utcYear :: "int \<Rightarrow> int" where
  "utcYear t = fst (civil (t div 86400000))"

section \<open>Hosts and values for the examples\<close>

text \<open>
  An example that runs a converter or the decoder names a host.  The examples below use
  the host that answers every call with the same number or the same string; their results
  do not depend on the answer, or hold the string where the host's answer goes.
\<close>

definition constantHost :: "'n \<Rightarrow> string \<Rightarrow> 'n host" where
  "constantHost n s =
    \<lparr>parseInt = (\<lambda>text radix. n), parseFloat = (\<lambda>text. n),
     numberToString = (\<lambda>number. s), bigintToString = (\<lambda>number. s),
     objectToString = (\<lambda>value. Inr s)\<rparr>"

text \<open>The array that holds nothing but an array, \<open>k\<close> times over, around the empty
  array.\<close>

primrec nest :: "nat \<Rightarrow> 'n jsval" where
  "nest 0 = Arr None []"
| "nest (Suc k) = Arr None [nest k]"

text \<open>A store with two cells that hold equal objects.\<close>

definition exampleStore :: "int store" where
  "exampleStore = (\<lambda>a. Null)
    (1 := Obj ObjectPrototype [(''a'', Num 1), (''b'', Arr None [Num 1, Str ''test''])],
     2 := Obj ObjectPrototype [(''a'', Num 1), (''b'', Arr None [Num 1, Str ''test''])])"

section \<open>Properties of the validator\<close>

declare isJSONValue.simps [simp del]

lemma isJSONValue_Arr: "isJSONValue (Arr c xs) = list_all isJSONValue xs"
  by (subst isJSONValue.simps) simp

lemma isJSONValue_Obj:
  "isJSONValue (Obj p ps) =
    (\<not> protoInstanceof p DateC \<and> \<not> protoInstanceof p RegExpC \<and> \<not> protoInstanceof p ErrorC \<and>
     (getConstructor (Obj p ps) = Function ObjectC \<or> getConstructor (Obj p ps) = Undefined) \<and>
     list_all isJSONValue (map snd ps))"
  by (subst isJSONValue.simps) auto

lemma isJSONValue_true:
  "isJSONValue Null" "isJSONValue (Str s)" "isJSONValue (Num n)" "isJSONValue (Bool b)"
  by (subst isJSONValue.simps, simp)+

lemma isJSONValue_false:
  "\<not> isJSONValue Undefined" "\<not> isJSONValue (Function f)" "\<not> isJSONValue (Symbol s)"
  "\<not> isJSONValue (DateObj t)" "\<not> isJSONValue (RegExpObj r)" "\<not> isJSONValue (ErrorObj m)"
  "\<not> isJSONValue (BigInt i)"
  by (subst isJSONValue.simps, simp)+

lemma not_isJSONValue_Arr: "\<not> isJSONValue x \<Longrightarrow> \<not> isJSONValue (Arr c (xs @ x # ys))"
  by (simp add: isJSONValue_Arr)

lemma not_isJSONValue_Obj: "\<not> isJSONValue x \<Longrightarrow> \<not> isJSONValue (Obj p (ps @ (k, x) # qs))"
  by (simp add: isJSONValue_Obj)

lemma isJSONValue_not_instanceof: "isJSONValue v \<Longrightarrow> \<not> instanceof v DateC"
  by (cases v) (simp_all add: isJSONValue_false isJSONValue_Obj)

text \<open>
  An object the validator accepts has no key of its own named \<^verbatim>\<open>constructor\<close>: the value
  under that key would have to be \<^verbatim>\<open>Object\<close> or \<^verbatim>\<open>undefined\<close> to pass the test of the
  constructor, and the validator accepts neither among the values of the object.
\<close>

lemma isJSONValue_no_own_constructor:
  assumes "isJSONValue (Obj p ps)"
  shows "map_of ps ''constructor'' = None"
proof (cases "map_of ps ''constructor''")
  case None
  then show ?thesis .
next
  case (Some x)
  then have "x \<in> set (map snd ps)" by (force dest: map_of_SomeD)
  with assms have "isJSONValue x" by (auto simp: isJSONValue_Obj list_all_iff)
  moreover from assms Some have "x = Function ObjectC \<or> x = Undefined"
    by (simp add: isJSONValue_Obj)
  ultimately show ?thesis by (auto simp: isJSONValue_false)
qed

text \<open>
  Where the validator and the rules of the specification agree: the validator accepts a
  value exactly when the value is in the domain and no object in it has a key of its own
  named \<^verbatim>\<open>constructor\<close>.
\<close>

lemma isJSONValue_eq_domain:
  "isJSONValue v = (jsonValueDomain v \<and> \<not> ownConstructorKey v)"
proof (induction v rule: jsonValueDomain.induct)
  case (11 c xs)
  then show ?case by (auto simp: isJSONValue_Arr list_all_iff list_ex_iff)
next
  case (12 p ps)
  show ?case
  proof (cases "map_of ps ''constructor''")
    case None
    with 12 show ?thesis
      by (auto simp: isJSONValue_Obj list_all_iff list_ex_iff)
  next
    case (Some x)
    with isJSONValue_no_own_constructor [of p ps] show ?thesis by auto
  qed
qed (simp_all add: isJSONValue_true isJSONValue_false)

text \<open>
  Claim C1 fails on the code for a plain object with a key named \<^verbatim>\<open>constructor\<close>.  The
  object \<^verbatim>\<open>{constructor: s}\<close> is a mapping from a text key to a string, built by the
  generic object type, and so in the domain; the validator reads the value under the key
  where it means to read the class of the object, finds a string that is not \<^verbatim>\<open>Object\<close>,
  and returns false.
\<close>

theorem isJSONValue_rejects_plain_mapping:
  "jsonValueDomain (Obj ObjectPrototype [(''constructor'', Str s)] :: 'n jsval) \<and>
   \<not> isJSONValue (Obj ObjectPrototype [(''constructor'', Str s)] :: 'n jsval) \<and>
   isJSONValue (Obj ObjectPrototype [(''a'', Str s)] :: 'n jsval)"
  by (simp add: isJSONValue_Obj isJSONValue_true)

section \<open>Properties of the value converters\<close>

text \<open>
  Claim C3.  On every value, \<open>serialize\<close> and \<open>parseValue\<close> end the same way: with the same
  result, or with the same error carrying the same message.
\<close>

theorem serialize_parseValue_identical: "serialize h v = parseValue h v"
  by (simp add: serialize_def parseValue_def)

subsection \<open>What the converters return\<close>

lemma converters_return_value:
  "isJSONValue v \<Longrightarrow> serialize h v = Inr v \<and> parseValue h v = Inr v"
  by (simp add: serialize_def parseValue_def isJSONValue_not_instanceof)

text \<open>The converters on references do to the object behind the argument what the converters
  on values do to it, and leave the store as it is.\<close>

lemma convertersRef_value:
  "fst (serializeRef h \<sigma> value) = \<sigma>"
  "(case snd (serializeRef h \<sigma> value) of Inl e \<Rightarrow> Inl e | Inr r \<Rightarrow> Inr (deref \<sigma> r)) =
     serialize h (deref \<sigma> value)"
  "fst (parseValueRef h \<sigma> value) = \<sigma>"
  "(case snd (parseValueRef h \<sigma> value) of Inl e \<Rightarrow> Inl e | Inr r \<Rightarrow> Inr (deref \<sigma> r)) =
     parseValue h (deref \<sigma> value)"
  by (auto simp: serializeRef_def parseValueRef_def serialize_def parseValue_def
      split: sum.splits)

text \<open>
  Claim C4.  On an argument whose value the validator accepts, both converters return the
  argument they were given and the store they were given: for an object or an array the
  address that came in, not the address of another cell with an equal object in it, and a
  store in which no cell has changed.
\<close>

theorem convertersRef_return_argument:
  "isJSONValue (deref \<sigma> value) \<Longrightarrow>
   serializeRef h \<sigma> value = (\<sigma>, Inr value) \<and> parseValueRef h \<sigma> value = (\<sigma>, Inr value)"
  by (simp add: serializeRef_def parseValueRef_def isJSONValue_not_instanceof)

theorem convertersRef_return_argument_witness:
  "serializeRef (constantHost (0::int) ''[object Object]'') exampleStore (Reference 1) =
     (exampleStore, Inr (Reference 1)) \<and>
   parseValueRef (constantHost (0::int) ''[object Object]'') exampleStore (Reference 1) =
     (exampleStore, Inr (Reference 1)) \<and>
   deref exampleStore (Reference 1) = deref exampleStore (Reference 2) \<and>
   Reference 1 \<noteq> (Reference 2 :: int argument)"
proof -
  have "isJSONValue (deref exampleStore (Reference 1))"
    by (simp add: exampleStore_def isJSONValue_Obj isJSONValue_Arr isJSONValue_true)
  from convertersRef_return_argument [OF this]
  show ?thesis by (simp add: exampleStore_def)
qed

subsection \<open>When the converters throw\<close>

text \<open>
  A converter throws on a value that is not an instance of \<^verbatim>\<open>Date\<close> exactly when the
  validator rejects the value, and on a date exactly when the date is the invalid one.
  The error it throws for a value the validator rejects carries the message of the
  converter whenever \<^verbatim>\<open>String(value)\<close> returns.
\<close>

lemma converters_throw_iff:
  assumes "\<not> instanceof v DateC"
  shows "(\<exists>e. serialize h v = Inl e) = (\<not> isJSONValue v)"
    and "(\<exists>e. parseValue h v = Inl e) = (\<not> isJSONValue v)"
  using assms by (auto simp: serialize_def parseValue_def split: sum.splits)

lemma converters_Date_throw_iff:
  "(\<exists>e. serialize h (DateObj t) = Inl e) = (t = None)"
  "(\<exists>e. parseValue h (DateObj t) = Inl e) = (t = None)"
  by (cases t; simp add: serialize_def parseValue_def)+

lemma converters_rejection_message:
  assumes "\<not> instanceof v DateC" and "\<not> isJSONValue v" and "String h v = Inr s"
  shows "serialize h v = Inl (TypeError (''JSON cannot represent value: '' @ s @
           ''.Only plain objects, arrays, and primitives are supported.''))"
    and "parseValue h v = Inl (TypeError (''JSON cannot represent value: '' @ s @
           ''.Only plain objects, arrays, and primitives are supported.''))"
  using assms by (simp_all add: serialize_def parseValue_def)

text \<open>
  Claim C5 fails on the code where \<^verbatim>\<open>String(value)\<close> throws.  An array that holds a
  symbol is not a date and the validator rejects it; \<^verbatim>\<open>String\<close> joins its elements and
  throws on the symbol, so both converters end with the \<^verbatim>\<open>TypeError\<close> of the host, whose
  message neither shows the value nor names what is supported.  For the symbol alone, which
  \<^verbatim>\<open>String\<close> prints, the message is the one the claim describes.
\<close>

theorem converters_rejection_message_lost:
  "\<not> instanceof (Arr None [Symbol d] :: 'n jsval) DateC \<and>
   \<not> isJSONValue (Arr None [Symbol d] :: 'n jsval) \<and>
   serialize h (Arr None [Symbol d]) =
     Inl (TypeError ''Cannot convert a Symbol value to a string'') \<and>
   parseValue h (Arr None [Symbol d]) =
     Inl (TypeError ''Cannot convert a Symbol value to a string'') \<and>
   serialize h (Symbol d) =
     Inl (TypeError (''JSON cannot represent value: Symbol('' @ d @
       '').Only plain objects, arrays, and primitives are supported.''))"
  by (simp add: serialize_def parseValue_def String_def isJSONValue_Arr isJSONValue_false)

subsection \<open>Dates\<close>

lemma length_digits: "length (digits w n) = w"
  by (induction w arbitrary: n) simp_all

lemma digits_are_digits: "c \<in> set (digits w n) \<Longrightarrow> isDigit c"
proof (induction w arbitrary: n)
  case 0
  then show ?case by simp
next
  case (Suc w)
  have "''0123456789'' ! nat (n mod 10) \<in> set ''0123456789''"
    by (rule nth_mem) simp
  then have "isDigit (''0123456789'' ! nat (n mod 10))"
    unfolding isDigit_def .
  with Suc show ?case by auto
qed

lemma matchesForm_append:
  "matchesForm p s \<Longrightarrow> matchesForm q r \<Longrightarrow> matchesForm (p @ q) (s @ r)"
  by (induction p s rule: matchesForm.induct) simp_all

lemma matchesForm_digits:
  "length p = length s \<Longrightarrow> \<forall>c\<in>set p. digitPlace c \<Longrightarrow> \<forall>c\<in>set s. isDigit c \<Longrightarrow>
   matchesForm p s"
  by (induction p s rule: matchesForm.induct) auto

lemma matchesForm_digits_w:
  "length p = w \<Longrightarrow> \<forall>c\<in>set p. digitPlace c \<Longrightarrow> matchesForm p (digits w n)"
  by (rule matchesForm_digits) (auto simp: length_digits dest: digits_are_digits)

lemma matchesForm_sign [simp]:
  "matchesForm ''-'' ''-''" "matchesForm ''+'' ''+''" "matchesForm ''T'' ''T''"
  "matchesForm '':'' '':''" "matchesForm ''.'' ''.''" "matchesForm ''Z'' ''Z''"
  by (simp_all add: digitPlace_def)

lemma isoString_form:
  "matchesForm
     (if 0 \<le> utcYear t \<and> utcYear t \<le> 9999 then ''YYYY-MM-DDTHH:mm:ss.sssZ''
      else if utcYear t < 0 then ''-YYYYYY-MM-DDTHH:mm:ss.sssZ''
      else ''+YYYYYY-MM-DDTHH:mm:ss.sssZ'')
     (isoString t)"
proof -
  obtain y m d where c: "civil (t div 86400000) = (y, m, d)" by (cases "civil (t div 86400000)")
  define rest where "rest = ''-'' @ digits 2 m @ ''-'' @ digits 2 d @ ''T'' @
       digits 2 (t div 3600000 mod 24) @ '':'' @
       digits 2 (t div 60000 mod 60) @ '':'' @
       digits 2 (t div 1000 mod 60) @ ''.'' @
       digits 3 (t mod 1000) @ ''Z''"
  have iso: "isoString t = yearString y @ rest"
    by (simp add: isoString_def c rest_def)
  have "matchesForm (''-'' @ ''MM'' @ ''-'' @ ''DD'' @ ''T'' @ ''HH'' @ '':'' @ ''mm'' @ '':'' @
      ''ss'' @ ''.'' @ ''sss'' @ ''Z'') rest"
    unfolding rest_def
    by (intro matchesForm_append matchesForm_digits_w) (simp_all add: digitPlace_def)
  then have rest: "matchesForm ''-MM-DDTHH:mm:ss.sssZ'' rest" by simp
  have y: "utcYear t = y" by (simp add: utcYear_def c)
  show ?thesis
  proof (cases "0 \<le> y \<and> y \<le> 9999")
    case True
    then have "matchesForm (''YYYY'' @ ''-MM-DDTHH:mm:ss.sssZ'') (yearString y @ rest)"
      by (intro matchesForm_append matchesForm_digits_w rest)
         (simp_all add: yearString_def matchesForm_digits_w digitPlace_def)
    with True show ?thesis by (simp add: iso y)
  next
    case False
    show ?thesis
    proof (cases "y < 0")
      case True
      have "matchesForm (''-'' @ ''YYYYYY'' @ ''-MM-DDTHH:mm:ss.sssZ'')
          (''-'' @ digits 6 \<bar>y\<bar> @ rest)"
        by (intro matchesForm_append matchesForm_digits_w rest) (simp_all add: digitPlace_def)
      with True False show ?thesis by (simp add: iso y yearString_def)
    next
      case nonneg: False
      have "matchesForm (''+'' @ ''YYYYYY'' @ ''-MM-DDTHH:mm:ss.sssZ'')
          (''+'' @ digits 6 \<bar>y\<bar> @ rest)"
        by (intro matchesForm_append matchesForm_digits_w rest) (simp_all add: digitPlace_def)
      with nonneg False show ?thesis by (simp add: iso y yearString_def)
    qed
  qed
qed

lemma isoString_example: "isoString 1672531200000 = ''2023-01-01T00:00:00.000Z''"
  by code_simp

lemma isoString_year_10000: "isoString 253402300800000 = ''+010000-01-01T00:00:00.000Z''"
  by code_simp

lemma utcYear_example: "utcYear 1672531200000 = 2023"
  by code_simp

text \<open>
  Claim C6, as stated, fails on three instances of \<^verbatim>\<open>Date\<close>.  On the invalid date both
  converters end with the \<^verbatim>\<open>RangeError\<close> of \<^verbatim>\<open>toISOString\<close> instead of a string.  On an
  object that has a date for its prototype and is no date itself, they end with the
  \<^verbatim>\<open>TypeError\<close> of \<^verbatim>\<open>toISOString\<close>.  On the first instant of the year 10000 they return a
  string that is not of the form \<^verbatim>\<open>YYYY-MM-DDTHH:mm:ss.sssZ\<close>.
\<close>

theorem converters_Date_counterexample:
  "instanceof (DateObj None :: int jsval) DateC \<and>
   serialize (constantHost (0::int) ''Invalid Date'') (DateObj None) =
     Inl (RangeError ''Invalid time value'') \<and>
   parseValue (constantHost (0::int) ''Invalid Date'') (DateObj None) =
     Inl (RangeError ''Invalid time value'') \<and>
   instanceof (Obj (InstancePrototype (DateObj (Some 0))) [] :: int jsval) DateC \<and>
   serialize (constantHost (0::int) '''') (Obj (InstancePrototype (DateObj (Some 0))) []) =
     Inl (TypeError ''this is not a Date object.'') \<and>
   serialize (constantHost (0::int) '''') (DateObj (Some 253402300800000)) =
     Inr (Str ''+010000-01-01T00:00:00.000Z'') \<and>
   \<not> matchesForm ''YYYY-MM-DDTHH:mm:ss.sssZ'' ''+010000-01-01T00:00:00.000Z''"
proof -
  have form: "\<not> matchesForm ''YYYY-MM-DDTHH:mm:ss.sssZ'' ''+010000-01-01T00:00:00.000Z''"
    by code_simp
  have year: "serialize (constantHost (0::int) '''') (DateObj (Some 253402300800000)) =
      Inr (Str ''+010000-01-01T00:00:00.000Z'')"
    unfolding isoString_year_10000 [symmetric] by (simp add: serialize_def)
  have rest: "instanceof (DateObj None :: int jsval) DateC \<and>
      serialize (constantHost (0::int) ''Invalid Date'') (DateObj None) =
        Inl (RangeError ''Invalid time value'') \<and>
      parseValue (constantHost (0::int) ''Invalid Date'') (DateObj None) =
        Inl (RangeError ''Invalid time value'') \<and>
      instanceof (Obj (InstancePrototype (DateObj (Some 0))) [] :: int jsval) DateC \<and>
      serialize (constantHost (0::int) '''') (Obj (InstancePrototype (DateObj (Some 0))) []) =
        Inl (TypeError ''this is not a Date object.'')"
    by (simp add: serialize_def parseValue_def)
  from rest year form show ?thesis by blast
qed

text \<open>
  Claim C6, amended.  On every date with a valid time value both converters return the
  string \<^verbatim>\<open>toISOString\<close> prints for it, which has the form \<^verbatim>\<open>YYYY-MM-DDTHH:mm:ss.sssZ\<close>
  when the year is one of 0 to 9999 and the same form with a sign and a year of six digits
  when it is not.  The validator has no say in it: it rejects the date itself, and the
  string returned is a value it accepts.
\<close>

theorem converters_valid_Date:
  "serialize h (DateObj (Some t)) = Inr (Str (isoString t)) \<and>
   parseValue h (DateObj (Some t)) = Inr (Str (isoString t)) \<and>
   matchesForm
     (if 0 \<le> utcYear t \<and> utcYear t \<le> 9999 then ''YYYY-MM-DDTHH:mm:ss.sssZ''
      else if utcYear t < 0 then ''-YYYYYY-MM-DDTHH:mm:ss.sssZ''
      else ''+YYYYYY-MM-DDTHH:mm:ss.sssZ'')
     (isoString t) \<and>
   \<not> isJSONValue (DateObj (Some t) :: 'n jsval) \<and>
   isJSONValue (Str (isoString t) :: 'n jsval)"
  using isoString_form [of t]
  by (simp add: serialize_def parseValue_def isJSONValue_true isJSONValue_false)

theorem converters_valid_Date_witness:
  "serialize (constantHost (0::int) '''') (DateObj (Some 1672531200000)) =
     Inr (Str ''2023-01-01T00:00:00.000Z'') \<and>
   parseValue (constantHost (0::int) '''') (DateObj (Some 1672531200000)) =
     Inr (Str ''2023-01-01T00:00:00.000Z'') \<and>
   matchesForm ''YYYY-MM-DDTHH:mm:ss.sssZ'' ''2023-01-01T00:00:00.000Z''"
proof -
  have form: "matchesForm ''YYYY-MM-DDTHH:mm:ss.sssZ'' ''2023-01-01T00:00:00.000Z''"
    by code_simp
  from converters_valid_Date [of "constantHost (0::int) ''''" 1672531200000]
  have "serialize (constantHost (0::int) '''') (DateObj (Some 1672531200000)) =
      Inr (Str (isoString 1672531200000)) \<and>
    parseValue (constantHost (0::int) '''') (DateObj (Some 1672531200000)) =
      Inr (Str (isoString 1672531200000))"
    by blast
  with form show ?thesis unfolding isoString_example by blast
qed

text \<open>
  Claim C10.  The test of the constructor is not reached for an array: the validator
  accepts an array exactly when it accepts every element, whatever the class of the array.
  An instance of a class that extends \<^verbatim>\<open>Array\<close> whose elements are all accepted is
  therefore accepted and returned as it is by both converters, while an instance of a class
  that is not an array is rejected whatever its properties.
\<close>

theorem isJSONValue_array_subclass:
  "isJSONValue (Arr c xs) = list_all isJSONValue xs \<and>
   (list_all isJSONValue xs \<longrightarrow>
      isJSONValue (Arr (Some cls) xs) \<and>
      serialize h (Arr (Some cls) xs) = Inr (Arr (Some cls) xs) \<and>
      parseValue h (Arr (Some cls) xs) = Inr (Arr (Some cls) xs)) \<and>
   \<not> isJSONValue (Obj (ClassPrototype cls) ps)"
proof -
  have "\<not> isJSONValue (Obj (ClassPrototype cls) ps)"
  proof (cases "map_of ps ''constructor''")
    case None
    then show ?thesis by (simp add: isJSONValue_Obj)
  next
    case (Some x)
    then have "x \<in> set (map snd ps)" by (force dest: map_of_SomeD)
    then have "list_all isJSONValue (map snd ps) \<Longrightarrow> isJSONValue x"
      by (auto simp: list_all_iff)
    with Some show ?thesis
      by (auto simp: isJSONValue_Obj isJSONValue_false)
  qed
  then show ?thesis
    by (simp add: isJSONValue_Arr serialize_def parseValue_def)
qed

theorem isJSONValue_array_subclass_witness:
  "isJSONValue (Arr (Some ''Tuple'') [Num (1::int), Str ''a'', Arr None [Null]]) \<and>
   serialize (constantHost (0::int) ''1,a,'') (Arr (Some ''Tuple'') [Num 1, Str ''a'', Arr None [Null]]) =
     Inr (Arr (Some ''Tuple'') [Num 1, Str ''a'', Arr None [Null]]) \<and>
   parseValue (constantHost (0::int) ''1,a,'') (Arr (Some ''Tuple'') [Num 1, Str ''a'', Arr None [Null]]) =
     Inr (Arr (Some ''Tuple'') [Num 1, Str ''a'', Arr None [Null]]) \<and>
   \<not> isJSONValue (Obj (ClassPrototype ''Tuple'') [(''0'', Num (1::int))])"
proof -
  have "list_all isJSONValue [Num (1::int), Str ''a'', Arr None [Null]]"
    by (simp add: isJSONValue_Arr isJSONValue_true)
  with isJSONValue_array_subclass [of None "[Num (1::int), Str ''a'', Arr None [Null]]"
      "''Tuple''" "constantHost (0::int) ''1,a,''" "[(''0'', Num (1::int))]"]
  show ?thesis by blast
qed

section \<open>Properties of the literal decoder\<close>

text \<open>
  Claim C7.  A node whose kind is none of the seven the decoder handles ends the call with
  a \<^verbatim>\<open>TypeError\<close>; its message names the kind of the node and lists the seven kinds.
\<close>

theorem parseLiteral_unsupported_kind:
  "kind ast \<notin> {''StringValue'', ''IntValue'', ''FloatValue'', ''BooleanValue'', ''NullValue'',
      ''ListValue'', ''ObjectValue''} \<Longrightarrow>
   parseLiteral h ast = Inl (TypeError (''JSON cannot represent value: '' @ kind ast @
     ''.Only StringValue, IntValue, FloatValue, BooleanValue, NullValue, ObjectValue, and ListValue are supported''))"
  by (cases ast) simp_all

theorem parseLiteral_unsupported_kind_witness:
  "parseLiteral (constantHost (0::int) '''') (EnumValue ''TEST'') =
     Inl (TypeError ''JSON cannot represent value: EnumValue.Only StringValue, IntValue, FloatValue, BooleanValue, NullValue, ObjectValue, and ListValue are supported'')"
  using parseLiteral_unsupported_kind [of "EnumValue ''TEST''" "constantHost (0::int) ''''"]
  by simp

subsection \<open>What the decoder returns, kind by kind\<close>

lemma mapParseLiteral_Inr:
  "(mapParseLiteral h vals = Inr xs) = list_all2 (\<lambda>val x. parseLiteral h val = Inr x) vals xs"
proof (induction vals arbitrary: xs)
  case Nil
  then show ?case by auto
next
  case (Cons val vals)
  show ?case
  proof (cases "parseLiteral h val")
    case (Inl e)
    then show ?thesis by (auto simp: list_all2_Cons1)
  next
    case (Inr x)
    then show ?thesis
      using Cons.IH by (cases "mapParseLiteral h vals") (auto simp: list_all2_Cons1)
  qed
qed

lemma setProperty_ordinary:
  "key \<noteq> ''__proto__'' \<Longrightarrow> setProperty (p, ps) key v = (p, AList.update key v ps)"
  by (simp add: setProperty_def)

lemma parseFields_ordinary:
  "''__proto__'' \<notin> set (map fst flds) \<Longrightarrow>
   parseFields h (p, ps) flds =
     (case mapParseLiteral h (map snd flds) of
        Inl e \<Rightarrow> Inl e
      | Inr xs \<Rightarrow> Inr (p, AList.updates (map fst flds) xs ps))"
proof (induction flds arbitrary: ps)
  case Nil
  then show ?case by simp
next
  case (Cons fld flds)
  then show ?case
    by (cases "parseLiteral h (snd fld)")
       (auto simp: setProperty_ordinary split: sum.splits)
qed

text \<open>
  The rows of the table of the specification.  A scalar literal decodes to its text, to
  the host's reading of its text, to its boolean or to \<^verbatim>\<open>null\<close>.  A list literal decodes
  to the array of its decoded elements, in their order.  An object literal none of whose
  fields is named \<^verbatim>\<open>__proto__\<close> decodes to the object with the prototype of an object
  literal whose property of each name is the decoded value of the last field of that name.
\<close>

lemma parseLiteral_scalars:
  "parseLiteral h (StringValue s) = Inr (Str s)"
  "parseLiteral h (IntValue s) = Inr (Num (parseInt h s 10))"
  "parseLiteral h (FloatValue s) = Inr (Num (parseFloat h s))"
  "parseLiteral h (BooleanValue b) = Inr (Bool b)"
  "parseLiteral h NullValue = Inr Null"
  by simp_all

lemma parseLiteral_ListValue:
  "list_all2 (\<lambda>val x. parseLiteral h val = Inr x) vals xs \<Longrightarrow>
   parseLiteral h (ListValue vals) = Inr (Arr None xs)"
  by (simp add: mapParseLiteral_Inr [symmetric])

lemma parseLiteral_ObjectValue_ordinary:
  assumes "''__proto__'' \<notin> set (map fst flds)"
    and "list_all2 (\<lambda>fld x. parseLiteral h (snd fld) = Inr x) flds xs"
  shows "\<exists>ps. parseLiteral h (ObjectValue flds) = Inr (Obj ObjectPrototype ps) \<and>
    map_of ps = map_of (rev (zip (map fst flds) xs))"
proof -
  from assms(2) have "mapParseLiteral h (map snd flds) = Inr xs"
    by (simp add: mapParseLiteral_Inr list_all2_map1)
  with assms(1) show ?thesis
    by (simp add: parseFields_ordinary updates_conv' map_upds_def)
qed

text \<open>
  Claim C2 holds for every row but the last: the code misses the field name
  \<^verbatim>\<open>__proto__\<close>.  The assignment \<^verbatim>\<open>obj["__proto__"] = v\<close> inserts nothing under that
  name.  For a string it leaves the object as it was; for a list it makes the decoded array
  the prototype of the object.  A field of any other name is inserted, as the second
  object shows.
\<close>

theorem parseLiteral_proto_field_not_inserted:
  "parseLiteral h (ObjectValue [(''__proto__'', StringValue s)]) = Inr (Obj ObjectPrototype []) \<and>
   parseLiteral h (ObjectValue [(''a'', StringValue s)]) = Inr (Obj ObjectPrototype [(''a'', Str s)]) \<and>
   parseLiteral h (ObjectValue [(''__proto__'', ListValue [])]) =
     Inr (Obj (InstancePrototype (Arr None [])) [])"
  by (simp add: setProperty_def)

subsection \<open>The decoder and the validator\<close>

lemma list_all_update:
  "P v \<Longrightarrow> list_all P (map snd ps) \<Longrightarrow> list_all P (map snd (AList.update k v ps))"
  by (induction ps) auto

lemma setProperty_keeps_valid:
  assumes "key \<noteq> ''__proto__''" and "key \<noteq> ''constructor''"
    and "isJSONValue v" and "list_all isJSONValue (map snd ps)"
    and "''constructor'' \<notin> fst ` set ps"
  shows "setProperty (p, ps) key v = (p, AList.update key v ps)"
    and "list_all isJSONValue (map snd (AList.update key v ps))"
    and "''constructor'' \<notin> fst ` set (AList.update key v ps)"
proof -
  show "setProperty (p, ps) key v = (p, AList.update key v ps)"
    using assms(1) by (rule setProperty_ordinary)
  show "list_all isJSONValue (map snd (AList.update key v ps))"
    using assms(3,4) by (rule list_all_update)
  show "''constructor'' \<notin> fst ` set (AList.update key v ps)"
    using assms(2,5) by (simp add: dom_update)
qed

text \<open>
  The validator accepts what the decoder returns for a literal in which no field of any
  object is named \<^verbatim>\<open>constructor\<close> or \<^verbatim>\<open>__proto__\<close>, whatever numbers the host reads.
\<close>

lemma decoded_isJSONValue:
  "parseLiteral h ast = Inr v \<Longrightarrow> ''constructor'' \<notin> set (fieldNames ast) \<Longrightarrow>
     ''__proto__'' \<notin> set (fieldNames ast) \<Longrightarrow> isJSONValue v"
  "mapParseLiteral h vals = Inr xs \<Longrightarrow> ''constructor'' \<notin> set (concat (map fieldNames vals)) \<Longrightarrow>
     ''__proto__'' \<notin> set (concat (map fieldNames vals)) \<Longrightarrow> list_all isJSONValue xs"
  "parseFields h obj flds = Inr r \<Longrightarrow>
     ''constructor'' \<notin> set (fieldNames (ObjectValue flds)) \<Longrightarrow>
     ''__proto__'' \<notin> set (fieldNames (ObjectValue flds)) \<Longrightarrow>
     fst obj = ObjectPrototype \<Longrightarrow> ''constructor'' \<notin> fst ` set (snd obj) \<Longrightarrow>
     list_all isJSONValue (map snd (snd obj)) \<Longrightarrow>
     fst r = ObjectPrototype \<and> ''constructor'' \<notin> fst ` set (snd r) \<and>
     list_all isJSONValue (map snd (snd r))"
proof (induction h ast and h vals and h obj flds arbitrary: v and xs and r
    rule: parseLiteral_mapParseLiteral_parseFields.induct)
  case (6 h vals)
  then show ?case by (auto simp: isJSONValue_Arr split: sum.splits)
next
  case (7 h flds)
  from "7.prems"(1) obtain p ps where r: "parseFields h (ObjectPrototype, []) flds = Inr (p, ps)"
    and v: "v = Obj p ps" by (auto split: sum.splits)
  from "7.IH" [OF r] "7.prems"(2,3)
  have "p = ObjectPrototype \<and> ''constructor'' \<notin> fst ` set ps \<and> list_all isJSONValue (map snd ps)"
    by simp
  moreover from this have "map_of ps ''constructor'' = None"
    by (simp add: map_of_eq_None_iff)
  ultimately show ?case
    by (simp add: v isJSONValue_Obj)
next
  case (11 h val vals)
  then show ?case by (auto split: sum.splits)
next
  case (13 h obj fld flds)
  from "13.prems"(1) obtain x where x: "parseLiteral h (snd fld) = Inr x"
    and rest: "parseFields h (setProperty obj (fst fld) x) flds = Inr r"
    by (auto split: sum.splits)
  from "13.prems"(2,3) have names: "fst fld \<noteq> ''__proto__''" "fst fld \<noteq> ''constructor''"
    "''constructor'' \<notin> set (fieldNames (snd fld))" "''__proto__'' \<notin> set (fieldNames (snd fld))"
    "''constructor'' \<notin> set (fieldNames (ObjectValue flds))"
    "''__proto__'' \<notin> set (fieldNames (ObjectValue flds))"
    by auto
  have xv: "isJSONValue x" using "13.IH"(1) [OF x names(3,4)] .
  obtain p ps where obj: "obj = (p, ps)" by (cases obj)
  with "13.prems"(4,5,6) have p: "p = ObjectPrototype" and c: "''constructor'' \<notin> fst ` set ps"
    and vs: "list_all isJSONValue (map snd ps)" by simp_all
  note sp = setProperty_keeps_valid(1) [OF names(1,2) xv vs c, of p]
    setProperty_keeps_valid(2,3) [OF names(1,2) xv vs c]
  show ?case
    using "13.IH"(2) [OF x rest names(5,6)] sp p obj by simp
qed (auto simp: isJSONValue_true)

text \<open>
  Claim C8 fails on the code for the two names left out above.  A field named
  \<^verbatim>\<open>constructor\<close> becomes an own property of the decoded object, so that
  \<^verbatim>\<open>value.constructor\<close> is the decoded string and no longer \<^verbatim>\<open>Object\<close>: the validator
  rejects the object the decoder returned, and so does \<open>serialize\<close>.  A field named
  \<^verbatim>\<open>__proto__\<close> with a list for its value gives the decoded object an array for its
  prototype and with it the constructor \<^verbatim>\<open>Array\<close>: rejected as well.
\<close>

theorem decoded_object_rejected:
  "parseLiteral h (ObjectValue [(''constructor'', StringValue s)]) =
     Inr (Obj ObjectPrototype [(''constructor'', Str s)]) \<and>
   \<not> isJSONValue (Obj ObjectPrototype [(''constructor'', Str s)] :: 'n jsval) \<and>
   (\<exists>e. serialize h (Obj ObjectPrototype [(''constructor'', Str s)]) = Inl e) \<and>
   parseLiteral h (ObjectValue [(''__proto__'', ListValue [])]) =
     Inr (Obj (InstancePrototype (Arr None [])) []) \<and>
   \<not> isJSONValue (Obj (InstancePrototype (Arr None [])) [] :: 'n jsval)"
  by (simp add: setProperty_def isJSONValue_Obj serialize_def split: sum.splits)

section \<open>Termination and the call stack of the host\<close>

subsection \<open>The validator on the call stack\<close>









lemma depth_nest: "depth (nest k) = Suc k"
  by (induction k) simp_all

lemma isJSONValue_nest: "isJSONValue (nest k)"
  by (induction k) (simp_all add: isJSONValue_Arr)


subsection \<open>Termination\<close>






end
